theory Spec2Isabelle
  imports Complex_Main "HOL-Library.Sublist"
begin

section \<open>The redistribution bot: a shallow embedding\<close>

text \<open>
  The bot consists of \<^verbatim>\<open>holders.ts\<close> (cooldown, swap history, ranking),
  \<^verbatim>\<open>fees.ts\<close> (fee claim), \<^verbatim>\<open>swap.ts\<close> (acquisition),
  \<^verbatim>\<open>distribute.ts\<close> (split, send, burn) and \<^verbatim>\<open>index.ts\<close> (one cycle).

  Conventions of the embedding:
  \<^item> a JavaScript \<^verbatim>\<open>number\<close> holding an amount or a price is a \<^typ>\<open>real\<close>
    (NaN and the infinities are not represented). The SOL an owner spent in a
    transaction is compared with \<open>GAS_THRESHOLD\<close> at the scale of a rounding error, so
    there the division and the subtraction round to binary64 (\<open>fl64\<close>) as the code's
    do; elsewhere the arithmetic is exact;
  \<^item> a \<^verbatim>\<open>bigint\<close> and the cycle counter are \<^typ>\<open>int\<close>;
  \<^item> a thrown exception is the \<open>Inl\<close> of a sum type;
  \<^item> the answers of the ledger, the price source and the acquisition venue during one
    cycle are the fields of the record \<open>Env\<close>; the module variables of the bot and the
    transactions it has submitted are the record \<open>State\<close>, passed explicitly.
\<close>

subsection \<open>Constants\<close>

definition LAMPORTS_PER_SOL :: real where
  "LAMPORTS_PER_SOL = 1000000000"

definition RESERVE_SOL :: real where
  "RESERVE_SOL = 0.01"

text \<open>IEEE 754 binary64, round to nearest, ties to even. \<open>ilog2 n x\<close> is the binary
  exponent of a positive \<open>x\<close>, found in at most \<open>n\<close> halvings or doublings; 1100 steps
  cover every exponent of the format, and below the smallest normal exponent the spacing
  is that of the subnormal numbers. Overflow is not represented.\<close>

fun ilog2 :: "nat \<Rightarrow> real \<Rightarrow> int" where
  "ilog2 0 x = 0"
| "ilog2 (Suc n) x =
     (if 2 \<le> x then ilog2 n (x / 2) + 1
      else if x < 1 then ilog2 n (x * 2) - 1
      else 0)"

definition pow2 :: "int \<Rightarrow> real" where
  "pow2 e = (if 0 \<le> e then 2 ^ nat e else 1 / 2 ^ nat (- e))"

definition round_even :: "real \<Rightarrow> int" where
  "round_even x =
     (let f = \<lfloor>x\<rfloor>; d = x - real_of_int f
      in if d < 1 / 2 then f
         else if 1 / 2 < d then f + 1
         else if even f then f else f + 1)"

definition fl64 :: "real \<Rightarrow> real" where
  "fl64 x =
     (if x = 0 then 0
      else (let e = max (- 1022) (ilog2 1100 \<bar>x\<bar>);
                ulp = pow2 (e - 52)
            in real_of_int (round_even (x / ulp)) * ulp))"

text \<open>The literal \<^verbatim>\<open>0.001\<close> is the binary64 number nearest to it.\<close>

definition GAS_THRESHOLD :: real where
  "GAS_THRESHOLD = fl64 0.001"

definition COOLDOWN_CYCLES :: int where
  "COOLDOWN_CYCLES = 2"

definition MIN_VALUE_SOL :: real where
  "MIN_VALUE_SOL = 0.001"

definition EXCLUDED :: "string set" where
  "EXCLUDED =
     {''11111111111111111111111111111111'',
      ''TokenkegQfeZyiNwAJbNbGKPFXCWuBvf9Ss623VQ5DA'',
      ''ATokenGPvbdGVxr1b2hvZbsiqW5xWH25efTNsLJA8knL'',
      ''1nc1nerator11111111111111111111111111111111'',
      ''5Q544fKrFoe6tsEbD7S8EmxGTJYAKtTVhAW5Q5pge4j1'',
      ''6EF8rrecthR5Dkzon8Nwu78hRvfCKubJ14M5uBEwF6P''}"

datatype burn_method = spl | dead_wallet

text \<open>The part of \<^verbatim>\<open>CONFIG\<close> the cycle reads. \<open>PRIVATE_KEY_wallet\<close> is the public
  key of \<^verbatim>\<open>CONFIG.PRIVATE_KEY\<close>: the payer of \<^verbatim>\<open>index.ts\<close> and the
  \<^verbatim>\<open>botWallet\<close> of \<^verbatim>\<open>getHolders\<close>.\<close>

record CONFIG =
  TOKEN_MINT :: string
  PRIVATE_KEY_wallet :: string
  MIN_FEE_SOL :: real
  BURN_METHOD :: burn_method
  DEAD_WALLET :: string

datatype error = RpcError | SwapError | TxError

text \<open>\<^verbatim>\<open>a / b\<close> on bigints truncates towards zero.\<close>

definition bigint_div :: "int \<Rightarrow> int \<Rightarrow> int" where
  "bigint_div a b = sgn a * sgn b * (\<bar>a\<bar> div \<bar>b\<bar>)"

subsection \<open>What the collaborators answer\<close>

record TokenBalance =
  tb_mint :: string
  tb_owner :: string
  uiAmount :: "real option"

record ParsedTx =
  preTokenBalances :: "TokenBalance list option"
  postTokenBalances :: "TokenBalance list option"
  accountKeys :: "string list"
  preBalances :: "int list option"
  postBalances :: "int list option"

text \<open>\<^verbatim>\<open>getParsedTransaction\<close>: it throws (or the entry is malformed, so that reading it
  throws), or the transaction or its \<^verbatim>\<open>meta\<close> is null, or it is parsed.\<close>

datatype tx_response = TxThrows | TxNoMeta | TxParsed ParsedTx

record TokenAmount =
  uiAmountString :: real
  amount :: int

record AccountInfo =
  info_owner :: string
  info_tokenAmount :: "TokenAmount option"

record ProgramAccount =
  pubkey :: string
  info :: "AccountInfo option"

text \<open>The price source: the request throws, the price is absent (or falsy), or a price.\<close>

datatype price_response = PriceFetchThrows | PriceMissing | PriceValue real

record CurveAccount =
  lamports :: int
  dataLength :: nat

datatype 'a rpc = RpcThrows | RpcNull | RpcValue 'a

datatype quote_response = QuoteHttpError | QuoteNoOutAmount | QuoteOut int

record Env =
  programAccounts :: "ProgramAccount list option"
  signaturesFor :: "string \<Rightarrow> tx_response list option"
  priceResponse :: price_response
  curveInfo :: "CurveAccount rpc"
  curveInfoAtWithdraw :: "CurveAccount rpc"
  withdrawConfirmed :: bool
  balanceAfterWithdraw :: "int option"
  walletBalance :: "int option"
  quoteFor :: "int \<Rightarrow> quote_response"
  swapTxBuilt :: bool
  swapConfirmed :: bool
  mintDecimals :: "nat option"
  ataExists :: "string \<Rightarrow> bool"
  sendConfirmed :: bool
  sendSignature :: string
  burnConfirmed :: bool
  burnSignature :: string

subsection \<open>The state: module variables and the submitted transactions\<close>

datatype step = WithdrawStep | SwapStep | SendStep | BurnStep

datatype instruction =
    WithdrawIx
  | SwapIx int int
  | CreateATAIx string
  | TransferIx string int
  | BurnIx int

type_synonym transaction = "instruction list"

record LastRecipient =
  lr_wallet :: string
  lr_amount :: real
  lr_burnTx :: string

record State =
  cycleCount :: int
  lastRecipient :: "LastRecipient option"
  recentWinners :: "string \<rightharpoonup> int"
  submitted :: "(step \<times> transaction \<times> bool) list"
  tokens :: "string \<Rightarrow> int"
  burned :: int

text \<open>What a confirmed instruction does to the token balances: a transfer moves tokens
  from the payer's account, a burn removes them, a swap credits the quoted amount.\<close>

fun applyIx :: "string \<Rightarrow> instruction \<Rightarrow> State \<Rightarrow> State" where
  "applyIx payer WithdrawIx s = s"
| "applyIx payer (SwapIx l out) s = s\<lparr>tokens := (tokens s)(payer := tokens s payer + out)\<rparr>"
| "applyIx payer (CreateATAIx w) s = s"
| "applyIx payer (TransferIx dst n) s =
     s\<lparr>tokens := ((tokens s)(payer := tokens s payer - n))
                     (dst := ((tokens s)(payer := tokens s payer - n)) dst + n)\<rparr>"
| "applyIx payer (BurnIx n) s =
     s\<lparr>tokens := (tokens s)(payer := tokens s payer - n), burned := burned s + n\<rparr>"

fun applyTx :: "string \<Rightarrow> transaction \<Rightarrow> State \<Rightarrow> State" where
  "applyTx payer [] s = s"
| "applyTx payer (ix # ixs) s = applyTx payer ixs (applyIx payer ix s)"

text \<open>Whether an instruction destroys tokens.\<close>

fun isBurnIx :: "instruction \<Rightarrow> bool" where
  "isBurnIx (BurnIx n) = True"
| "isBurnIx ix = False"

text \<open>Submitting a transaction and waiting for its confirmation: the attempt is logged;
  a confirmed transaction takes effect, a failed one has none.\<close>

definition submitTx :: "string \<Rightarrow> step \<Rightarrow> transaction \<Rightarrow> bool \<Rightarrow> State \<Rightarrow> State" where
  "submitTx payer st tx ok s =
     (let s1 = s\<lparr>submitted := submitted s @ [(st, tx, ok)]\<rparr>
      in if ok then applyTx payer tx s1 else s1)"

subsection \<open>holders.ts: cooldown\<close>

definition recordWinner :: "string \<Rightarrow> int \<Rightarrow> (string \<rightharpoonup> int) \<Rightarrow> (string \<rightharpoonup> int)" where
  "recordWinner wallet cycle rw = rw(wallet \<mapsto> cycle)"

text \<open>\<^verbatim>\<open>if (!wonAt) return false\<close>: \<^verbatim>\<open>undefined\<close> and \<^verbatim>\<open>0\<close> are both falsy.\<close>

definition isOnCooldown :: "(string \<rightharpoonup> int) \<Rightarrow> string \<Rightarrow> int \<Rightarrow> bool" where
  "isOnCooldown rw wallet currentCycle =
     (case rw wallet of
        None \<Rightarrow> False
      | Some wonAt \<Rightarrow>
          if wonAt = 0 then False
          else currentCycle - wonAt \<le> COOLDOWN_CYCLES)"

subsection \<open>holders.ts: price and swap history\<close>

definition getPrice :: "price_response \<Rightarrow> real" where
  "getPrice r =
     (case r of
        PriceFetchThrows \<Rightarrow> 0
      | PriceMissing \<Rightarrow> 0
      | PriceValue price \<Rightarrow> price)"

record SwapHistory =
  totalSolSpent :: real
  totalTokensBought :: real

text \<open>\<^verbatim>\<open>balances?.filter(mint and owner match) ?? []\<close>, then
  \<^verbatim>\<open>[0]?.uiTokenAmount?.uiAmount ?? 0\<close>.\<close>

definition ownTokenBalance :: "string \<Rightarrow> string \<Rightarrow> TokenBalance list option \<Rightarrow> real" where
  "ownTokenBalance mint owner bs =
     (case filter (\<lambda>b. tb_mint b = mint \<and> tb_owner b = owner)
             (case bs of None \<Rightarrow> [] | Some l \<Rightarrow> l) of
        [] \<Rightarrow> 0
      | b # _ \<Rightarrow> (case uiAmount b of None \<Rightarrow> 0 | Some v \<Rightarrow> v))"

text \<open>The index of the owner among the account keys: the first match, 0 when there is none.\<close>

fun findKey :: "string \<Rightarrow> string list \<Rightarrow> nat option" where
  "findKey owner [] = None"
| "findKey owner (k # ks) =
     (if k = owner then Some 0 else map_option Suc (findKey owner ks))"

definition ownerIdx :: "string \<Rightarrow> string list \<Rightarrow> nat" where
  "ownerIdx owner keys = (case findKey owner keys of None \<Rightarrow> 0 | Some i \<Rightarrow> i)"

text \<open>\<^verbatim>\<open>(balances?.[idx] ?? 0) / 1e9\<close>: the lamports as the number the response
  was parsed into, and a binary64 division.\<close>

definition solAt :: "int list option \<Rightarrow> nat \<Rightarrow> real" where
  "solAt bs idx =
     fl64 (fl64 (case bs of
                   None \<Rightarrow> 0
                 | Some l \<Rightarrow> if idx < length l then real_of_int (l ! idx) else 0)
             / 1000000000)"

text \<open>\<^verbatim>\<open>postBal - preBal\<close>, tested against 0 only: the exact difference of two
  binary64 numbers has the sign of the rounded one.\<close>

definition txTokenDelta :: "string \<Rightarrow> string \<Rightarrow> ParsedTx \<Rightarrow> real" where
  "txTokenDelta mint owner tx =
     ownTokenBalance mint owner (postTokenBalances tx)
       - ownTokenBalance mint owner (preTokenBalances tx)"

text \<open>\<^verbatim>\<open>preSOL - postSOL\<close>, a binary64 subtraction.\<close>

definition txSolSpent :: "string \<Rightarrow> ParsedTx \<Rightarrow> real" where
  "txSolSpent owner tx =
     (let idx = ownerIdx owner (accountKeys tx);
          preSOL = solAt (preBalances tx) idx;
          postSOL = solAt (postBalances tx) idx
      in fl64 (preSOL - postSOL))"

text \<open>One iteration of the loop over the signatures.\<close>

definition scanTx :: "string \<Rightarrow> string \<Rightarrow> SwapHistory \<Rightarrow> tx_response \<Rightarrow> SwapHistory" where
  "scanTx mint owner acc r =
     (case r of
        TxThrows \<Rightarrow> acc
      | TxNoMeta \<Rightarrow> acc
      | TxParsed tx \<Rightarrow>
          (let tokenDelta = txTokenDelta mint owner tx
           in if tokenDelta \<le> 0 then acc
              else (let solSpent = txSolSpent owner tx
                    in if solSpent > GAS_THRESHOLD
                       then \<lparr>totalSolSpent = totalSolSpent acc + solSpent,
                             totalTokensBought = totalTokensBought acc + tokenDelta\<rparr>
                       else acc)))"

text \<open>\<^verbatim>\<open>getSignaturesForAddress(owner, {limit: 30})\<close>: when it throws the totals are 0.\<close>

definition getSwapHistory ::
  "(string \<Rightarrow> tx_response list option) \<Rightarrow> string \<Rightarrow> string \<Rightarrow> SwapHistory" where
  "getSwapHistory sigs owner mint =
     (case sigs owner of
        None \<Rightarrow> \<lparr>totalSolSpent = 0, totalTokensBought = 0\<rparr>
      | Some txs \<Rightarrow>
          foldl (scanTx mint owner) \<lparr>totalSolSpent = 0, totalTokensBought = 0\<rparr> (take 30 txs))"

subsection \<open>holders.ts: the ranker\<close>

record Holder =
  wallet :: string
  ata :: string
  balance :: real
  balanceRaw :: int
  costBasis :: real
  currentValue :: real
  pnl :: real
  swapBought :: real
  retainedRatio :: real

text \<open>The derived fields and the \<^verbatim>\<open>holders.push\<close> of the loop body.\<close>

definition mkHolder :: "string \<Rightarrow> string \<Rightarrow> real \<Rightarrow> int \<Rightarrow> SwapHistory \<Rightarrow> real \<Rightarrow> Holder" where
  "mkHolder owner key bal raw h price =
     (let ratio = min 1 (bal / totalTokensBought h);
          effectiveBalance = min bal (totalTokensBought h);
          adjustedCostBasis = totalSolSpent h * ratio;
          val = effectiveBalance * price;
          pl = val - adjustedCostBasis
      in \<lparr>wallet = owner, ata = key, balance = bal, balanceRaw = raw,
          costBasis = adjustedCostBasis, currentValue = val, pnl = pl,
          swapBought = totalTokensBought h, retainedRatio = ratio\<rparr>)"

text \<open>One iteration of the loop over the token accounts; \<open>None\<close> is \<^verbatim>\<open>continue\<close>.\<close>

definition scanAccount :: "CONFIG \<Rightarrow> Env \<Rightarrow> real \<Rightarrow> ProgramAccount \<Rightarrow> Holder option" where
  "scanAccount cfg env price account =
     (case info account of
        None \<Rightarrow> None
      | Some i \<Rightarrow>
          (let owner = info_owner i;
               bal = (case info_tokenAmount i of None \<Rightarrow> 0 | Some t \<Rightarrow> uiAmountString t);
               raw = (case info_tokenAmount i of None \<Rightarrow> 0 | Some t \<Rightarrow> amount t)
           in if bal \<le> 0 \<or> owner \<in> EXCLUDED \<or> owner = PRIVATE_KEY_wallet cfg then None
              else (let h = getSwapHistory (signaturesFor env) owner (TOKEN_MINT cfg)
                    in if totalTokensBought h \<le> 0 \<or> totalSolSpent h \<le> 0 then None
                       else Some (mkHolder owner (pubkey account) bal raw h price))))"

fun scanAccounts :: "CONFIG \<Rightarrow> Env \<Rightarrow> real \<Rightarrow> ProgramAccount list \<Rightarrow> Holder list" where
  "scanAccounts cfg env price [] = []"
| "scanAccounts cfg env price (a # as) =
     (case scanAccount cfg env price a of
        None \<Rightarrow> scanAccounts cfg env price as
      | Some h \<Rightarrow> h # scanAccounts cfg env price as)"

text \<open>The filter on cooldown and minimum value; \<^verbatim>\<open>currentCycle\<close> is optional.\<close>

definition isEligible :: "(string \<rightharpoonup> int) \<Rightarrow> int option \<Rightarrow> Holder \<Rightarrow> bool" where
  "isEligible rw currentCycle h =
     (if currentValue h < MIN_VALUE_SOL then False
      else if (case currentCycle of None \<Rightarrow> False | Some c \<Rightarrow> isOnCooldown rw (wallet h) c)
      then False
      else True)"

text \<open>\<^verbatim>\<open>Array.prototype.sort\<close> with a comparator: the language requires a stable sort;
  here by insertion, an element going before the first one it does not exceed.\<close>

fun insort_cmp :: "('a \<Rightarrow> 'a \<Rightarrow> real) \<Rightarrow> 'a \<Rightarrow> 'a list \<Rightarrow> 'a list" where
  "insort_cmp cmp x [] = [x]"
| "insort_cmp cmp x (y # ys) =
     (if cmp x y \<le> 0 then x # y # ys else y # insort_cmp cmp x ys)"

fun array_sort :: "('a \<Rightarrow> 'a \<Rightarrow> real) \<Rightarrow> 'a list \<Rightarrow> 'a list" where
  "array_sort cmp [] = []"
| "array_sort cmp (x # xs) = insort_cmp cmp x (array_sort cmp xs)"

definition getHolders ::
  "CONFIG \<Rightarrow> Env \<Rightarrow> (string \<rightharpoonup> int) \<Rightarrow> int option \<Rightarrow> error + Holder list" where
  "getHolders cfg env rw currentCycle =
     (case programAccounts env of
        None \<Rightarrow> Inl RpcError
      | Some accounts \<Rightarrow>
          (let price = getPrice (priceResponse env);
               holders = scanAccounts cfg env price accounts;
               eligible = filter (isEligible rw currentCycle) holders
           in Inr (array_sort (\<lambda>a b. pnl a - pnl b) eligible)))"

subsection \<open>fees.ts\<close>

definition isOnBondingCurve :: "CurveAccount rpc \<Rightarrow> bool" where
  "isOnBondingCurve r =
     (case r of
        RpcThrows \<Rightarrow> False
      | RpcNull \<Rightarrow> False
      | RpcValue accountInfo \<Rightarrow> dataLength accountInfo > 0)"

text \<open>Every exception inside \<^verbatim>\<open>withdrawPumpFunFees\<close> is caught and gives 0.\<close>

definition withdrawPumpFunFees :: "CONFIG \<Rightarrow> Env \<Rightarrow> State \<Rightarrow> real \<times> State" where
  "withdrawPumpFunFees cfg env s =
     (case curveInfoAtWithdraw env of
        RpcThrows \<Rightarrow> (0, s)
      | RpcNull \<Rightarrow> (0, s)
      | RpcValue bondingCurveInfo \<Rightarrow>
          (let bondingCurveBalance = real_of_int (lamports bondingCurveInfo) / LAMPORTS_PER_SOL
           in if bondingCurveBalance < 0.001 then (0, s)
              else (let s1 = submitTx (PRIVATE_KEY_wallet cfg) WithdrawStep [WithdrawIx]
                               (withdrawConfirmed env) s
                    in if \<not> withdrawConfirmed env then (0, s1)
                       else (case balanceAfterWithdraw env of
                               None \<Rightarrow> (0, s1)
                             | Some newBalance \<Rightarrow>
                                 (max 0 (real_of_int newBalance / LAMPORTS_PER_SOL - RESERVE_SOL),
                                  s1)))))"

definition claimFees :: "CONFIG \<Rightarrow> Env \<Rightarrow> State \<Rightarrow> (error + real) \<times> State" where
  "claimFees cfg env s =
     (if isOnBondingCurve (curveInfo env)
      then (case withdrawPumpFunFees cfg env s of (available, s1) \<Rightarrow> (Inr available, s1))
      else (case walletBalance env of
              None \<Rightarrow> (Inl RpcError, s)
            | Some bal \<Rightarrow>
                (let balanceSOL = real_of_int bal / LAMPORTS_PER_SOL;
                     available = max 0 (balanceSOL - RESERVE_SOL)
                 in if available < MIN_FEE_SOL cfg then (Inr 0, s)
                    else (Inr available, s))))"

subsection \<open>swap.ts\<close>

text \<open>Every failure is rethrown; a quote of zero tokens throws too.\<close>

definition buyTokens :: "CONFIG \<Rightarrow> Env \<Rightarrow> real \<Rightarrow> State \<Rightarrow> (error + int) \<times> State" where
  "buyTokens cfg env solAmount s =
     (let lamps = \<lfloor>solAmount * LAMPORTS_PER_SOL\<rfloor>
      in case quoteFor env lamps of
           QuoteHttpError \<Rightarrow> (Inl SwapError, s)
         | QuoteNoOutAmount \<Rightarrow> (Inl SwapError, s)
         | QuoteOut outputAmount \<Rightarrow>
             if outputAmount = 0 then (Inl SwapError, s)
             else if \<not> swapTxBuilt env then (Inl SwapError, s)
             else (let s1 = submitTx (PRIVATE_KEY_wallet cfg) SwapStep
                              [SwapIx lamps outputAmount] (swapConfirmed env) s
                   in if swapConfirmed env then (Inr outputAmount, s1)
                      else (Inl SwapError, s1)))"

subsection \<open>distribute.ts\<close>

definition getDecimals :: "Env \<Rightarrow> nat" where
  "getDecimals env = (case mintDecimals env of None \<Rightarrow> 6 | Some d \<Rightarrow> d)"

definition toSend :: "int \<Rightarrow> int" where
  "toSend totalRaw = bigint_div totalRaw 2"

definition toBurn :: "int \<Rightarrow> int" where
  "toBurn totalRaw = totalRaw - toSend totalRaw"

text \<open>The first transaction: create the recipient's token account when absent, transfer.\<close>

definition sendTx :: "Env \<Rightarrow> string \<Rightarrow> int \<Rightarrow> transaction" where
  "sendTx env recipientWallet totalRaw =
     (if ataExists env recipientWallet then [] else [CreateATAIx recipientWallet])
       @ [TransferIx recipientWallet (toSend totalRaw)]"

text \<open>The second transaction, by the configured method.\<close>

definition burnTx :: "CONFIG \<Rightarrow> Env \<Rightarrow> int \<Rightarrow> transaction" where
  "burnTx cfg env totalRaw =
     (if BURN_METHOD cfg = dead_wallet
      then (if ataExists env (DEAD_WALLET cfg) then [] else [CreateATAIx (DEAD_WALLET cfg)])
             @ [TransferIx (DEAD_WALLET cfg) (toBurn totalRaw)]
      else [BurnIx (toBurn totalRaw)])"

definition distribute ::
  "CONFIG \<Rightarrow> Env \<Rightarrow> string \<Rightarrow> int \<Rightarrow> nat \<Rightarrow> State \<Rightarrow> (error + string \<times> string) \<times> State" where
  "distribute cfg env recipientWallet totalRaw decimals s =
     (let s1 = submitTx (PRIVATE_KEY_wallet cfg) SendStep
                 (sendTx env recipientWallet totalRaw) (sendConfirmed env) s
      in if \<not> sendConfirmed env then (Inl TxError, s1)
         else (let s2 = submitTx (PRIVATE_KEY_wallet cfg) BurnStep
                          (burnTx cfg env totalRaw) (burnConfirmed env) s1
               in if \<not> burnConfirmed env then (Inl TxError, s2)
                  else (Inr (sendSignature env, burnSignature env), s2)))"

subsection \<open>index.ts: one cycle\<close>

datatype outcome =
    SkippedNoHolders
  | SkippedNoLoss
  | SkippedNoFees
  | AbortedZeroTokens
  | Failed
  | Completed

text \<open>The last steps of a cycle whose distribution resolved.\<close>

definition finishCycle :: "Holder \<Rightarrow> int \<Rightarrow> nat \<Rightarrow> string \<Rightarrow> State \<Rightarrow> State" where
  "finishCycle topLoser tokensReceived decimals txBurn s =
     (let halfAmount = real_of_int (bigint_div tokensReceived 2) / 10 ^ decimals
      in s\<lparr>lastRecipient :=
              Some \<lparr>lr_wallet = wallet topLoser, lr_amount = halfAmount, lr_burnTx = txBurn\<rparr>,
            recentWinners := recordWinner (wallet topLoser) (cycleCount s) (recentWinners s)\<rparr>)"

definition runCycle :: "CONFIG \<Rightarrow> Env \<Rightarrow> State \<Rightarrow> outcome \<times> State" where
  "runCycle cfg env s0 =
     (let s = s0\<lparr>cycleCount := cycleCount s0 + 1\<rparr>
      in case getHolders cfg env (recentWinners s) (Some (cycleCount s)) of
           Inl e \<Rightarrow> (Failed, s)
         | Inr [] \<Rightarrow> (SkippedNoHolders, s)
         | Inr (topLoser # rest) \<Rightarrow>
             if pnl topLoser \<ge> 0 then (SkippedNoLoss, s)
             else (case claimFees cfg env s of
                     (Inl e, s1) \<Rightarrow> (Failed, s1)
                   | (Inr solAvailable, s1) \<Rightarrow>
                       if solAvailable \<le> 0 then (SkippedNoFees, s1)
                       else (case buyTokens cfg env solAvailable s1 of
                               (Inl e, s2) \<Rightarrow> (Failed, s2)
                             | (Inr tokensReceived, s2) \<Rightarrow>
                                 if tokensReceived = 0 then (AbortedZeroTokens, s2)
                                 else (case distribute cfg env (wallet topLoser) tokensReceived
                                              (getDecimals env) s2 of
                                         (Inl e, s3) \<Rightarrow> (Failed, s3)
                                       | (Inr (txSend, txBurn), s3) \<Rightarrow>
                                           (Completed,
                                            finishCycle topLoser tokensReceived
                                              (getDecimals env) txBurn s3)))))"

subsection \<open>A concrete ledger\<close>

text \<open>Four token accounts in scan order: \<open>W2\<close> and \<open>W4\<close> each hold 1000 tokens and
  bought 800 for 10 SOL; \<open>W3\<close> holds a million tokens that came by transfer; \<open>W1\<close>
  holds 300 of the 1000 tokens it bought for 50 SOL. The price is 0.01, the token has
  migrated, the wallet holds 1.01 SOL, and every transaction confirms.\<close>

definition ex_cfg :: CONFIG where
  "ex_cfg = \<lparr>TOKEN_MINT = ''HOPE'', PRIVATE_KEY_wallet = ''BOT'', MIN_FEE_SOL = 0.005,
             BURN_METHOD = spl, DEAD_WALLET = ''1nc1nerator11111111111111111111111111111111''\<rparr>"

definition ex_buy :: "string \<Rightarrow> real \<Rightarrow> int \<Rightarrow> tx_response" where
  "ex_buy owner n spent =
     TxParsed \<lparr>preTokenBalances = Some [],
               postTokenBalances = Some [\<lparr>tb_mint = ''HOPE'', tb_owner = owner, uiAmount = Some n\<rparr>],
               accountKeys = [owner, ''POOL''],
               preBalances = Some [spent, 0],
               postBalances = Some [0, spent]\<rparr>"

definition ex_transfer_in :: "string \<Rightarrow> real \<Rightarrow> tx_response" where
  "ex_transfer_in owner n =
     TxParsed \<lparr>preTokenBalances = Some [],
               postTokenBalances = Some [\<lparr>tb_mint = ''HOPE'', tb_owner = owner, uiAmount = Some n\<rparr>],
               accountKeys = [''SENDER'', owner],
               preBalances = Some [9000000000, 2000000],
               postBalances = Some [7000000000, 2000000]\<rparr>"

definition ex_account :: "string \<Rightarrow> string \<Rightarrow> real \<Rightarrow> int \<Rightarrow> ProgramAccount" where
  "ex_account key owner bal raw =
     \<lparr>pubkey = key,
      info = Some \<lparr>info_owner = owner,
                   info_tokenAmount = Some \<lparr>uiAmountString = bal, amount = raw\<rparr>\<rparr>\<rparr>"

definition ex_accounts :: "ProgramAccount list" where
  "ex_accounts =
     [ex_account ''ATA2'' ''W2'' 1000 1000000000,
      ex_account ''ATA3'' ''W3'' 1000000 1000000000000,
      ex_account ''ATA1'' ''W1'' 300 300000000,
      ex_account ''ATA4'' ''W4'' 1000 1000000000]"

definition ex_signatures :: "string \<Rightarrow> tx_response list option" where
  "ex_signatures owner =
     (if owner = ''W1'' then Some [TxNoMeta, ex_buy ''W1'' 1000 50000000000]
      else if owner = ''W2'' then Some [ex_buy ''W2'' 800 10000000000, TxThrows]
      else if owner = ''W3'' then Some [ex_transfer_in ''W3'' 1000000]
      else if owner = ''W4'' then Some [ex_buy ''W4'' 800 10000000000]
      else None)"

definition ex_env :: Env where
  "ex_env =
     \<lparr>programAccounts = Some ex_accounts,
      signaturesFor = ex_signatures,
      priceResponse = PriceValue 0.01,
      curveInfo = RpcNull,
      curveInfoAtWithdraw = RpcNull,
      withdrawConfirmed = False,
      balanceAfterWithdraw = None,
      walletBalance = Some 1010000000,
      quoteFor = (\<lambda>l. QuoteOut 7000001),
      swapTxBuilt = True,
      swapConfirmed = True,
      mintDecimals = Some 6,
      ataExists = (\<lambda>w. False),
      sendConfirmed = True,
      sendSignature = ''SIG_SEND'',
      burnConfirmed = True,
      burnSignature = ''SIG_BURN''\<rparr>"

text \<open>The same ledger with the token still on its bonding curve: the withdrawal
  confirms and leaves 0.012 SOL in the wallet.\<close>

definition ex_env_curve :: Env where
  "ex_env_curve =
     ex_env\<lparr>curveInfo := RpcValue \<lparr>lamports = 5000000, dataLength = 150\<rparr>,
            curveInfoAtWithdraw := RpcValue \<lparr>lamports = 5000000, dataLength = 150\<rparr>,
            withdrawConfirmed := True,
            balanceAfterWithdraw := Some 12000000\<rparr>"

text \<open>The ledger with the price source failing, with the transfer to the recipient
  failing, and with the burn failing.\<close>

definition ex_env_noprice :: Env where
  "ex_env_noprice = ex_env\<lparr>priceResponse := PriceFetchThrows\<rparr>"

definition ex_env_sendfail :: Env where
  "ex_env_sendfail = ex_env\<lparr>sendConfirmed := False\<rparr>"

definition ex_env_burnfail :: Env where
  "ex_env_burnfail = ex_env\<lparr>burnConfirmed := False\<rparr>"

text \<open>A transaction in which the owner's balance goes from 300000000 to 299000000
  lamports and it receives a token, and one in which it goes from 1000000 to 0.\<close>

definition ex_boundary_tx :: "int \<Rightarrow> int \<Rightarrow> ParsedTx" where
  "ex_boundary_tx pre post =
     \<lparr>preTokenBalances = Some [],
      postTokenBalances = Some [\<lparr>tb_mint = ''HOPE'', tb_owner = ''W5'', uiAmount = Some 1\<rparr>],
      accountKeys = [''W5''],
      preBalances = Some [pre],
      postBalances = Some [post]\<rparr>"

definition ex_state :: State where
  "ex_state =
     \<lparr>cycleCount = 0, lastRecipient = None, recentWinners = Map.empty, submitted = [],
      tokens = (\<lambda>w. 0), burned = 0\<rparr>"

definition ex_holder1 :: Holder where
  "ex_holder1 =
     \<lparr>wallet = ''W1'', ata = ''ATA1'', balance = 300, balanceRaw = 300000000,
      costBasis = 15, currentValue = 3, pnl = - 12, swapBought = 1000, retainedRatio = 0.3\<rparr>"

definition ex_holder2 :: Holder where
  "ex_holder2 =
     \<lparr>wallet = ''W2'', ata = ''ATA2'', balance = 1000, balanceRaw = 1000000000,
      costBasis = 10, currentValue = 8, pnl = - 2, swapBought = 800, retainedRatio = 1\<rparr>"

definition ex_holder4 :: Holder where
  "ex_holder4 =
     \<lparr>wallet = ''W4'', ata = ''ATA4'', balance = 1000, balanceRaw = 1000000000,
      costBasis = 10, currentValue = 8, pnl = - 2, swapBought = 800, retainedRatio = 1\<rparr>"

section \<open>Properties\<close>

lemmas ex_defs = ex_cfg_def ex_buy_def ex_transfer_in_def ex_account_def ex_accounts_def
  ex_signatures_def ex_env_def ex_env_curve_def ex_env_noprice_def ex_env_sendfail_def
  ex_env_burnfail_def ex_boundary_tx_def ex_state_def ex_holder1_def ex_holder2_def
  ex_holder4_def

subsection \<open>Binary64 rounding\<close>

lemma ilog2_numeral:
  "ilog2 (numeral k) x =
     (if 2 \<le> x then ilog2 (pred_numeral k) (x / 2) + 1
      else if x < 1 then ilog2 (pred_numeral k) (x * 2) - 1
      else 0)"
  by (simp add: numeral_eq_Suc)

lemma pow2_pos: "0 < pow2 e"
  by (simp add: pow2_def)

lemma pow2_Suc: "pow2 (e + 1) = 2 * pow2 e"
proof (cases "0 \<le> e")
  case True
  then show ?thesis by (simp add: pow2_def nat_add_distrib)
next
  case False
  then have "nat (- e) = Suc (nat (- (e + 1)))" by simp
  then have "(2::real) ^ nat (- e) = 2 * 2 ^ nat (- (e + 1))" by simp
  with False show ?thesis by (auto simp: pow2_def)
qed

lemma pow2_pred: "pow2 (e - 1) = pow2 e / 2"
  using pow2_Suc [of "e - 1"] by simp

text \<open>The exponent search brackets its argument: within \<open>n\<close> steps of 1 the result
  \<open>e\<close> has \<open>2 ^ e \<le> x < 2 ^ (e + 1)\<close>.\<close>

lemma ilog2_bracket:
  assumes "pow2 (- int n) \<le> x" and "x < 2 * pow2 (int n)"
  shows "pow2 (ilog2 n x) \<le> x \<and> x < 2 * pow2 (ilog2 n x)"
  using assms
proof (induction n arbitrary: x)
  case 0
  then show ?case by (simp add: pow2_def)
next
  case (Suc n)
  have "- int (Suc n) = - int n - 1" by simp
  then have lo: "pow2 (- int (Suc n)) = pow2 (- int n) / 2"
    by (simp only: pow2_pred)
  have "int (Suc n) = int n + 1" by simp
  then have hi: "pow2 (int (Suc n)) = 2 * pow2 (int n)"
    by (simp only: pow2_Suc)
  show ?case
  proof (cases "2 \<le> x")
    case True
    have "pow2 (- int n) \<le> 1" by (simp add: pow2_def)
    with True have a: "pow2 (- int n) \<le> x / 2" by simp
    from Suc.prems(2) hi have b: "x / 2 < 2 * pow2 (int n)" by simp
    from Suc.IH [OF a b] True show ?thesis by (simp add: pow2_Suc)
  next
    case False
    show ?thesis
    proof (cases "x < 1")
      case True
      from Suc.prems(1) lo have a: "pow2 (- int n) \<le> x * 2" by simp
      have "(1::real) \<le> pow2 (int n)" by (simp add: pow2_def)
      with True have b: "x * 2 < 2 * pow2 (int n)" by simp
      from Suc.IH [OF a b] True False show ?thesis by (simp add: pow2_pred)
    next
      case False
      with \<open>\<not> 2 \<le> x\<close> show ?thesis by (simp add: pow2_def)
    qed
  qed
qed

lemmas fl_defs = fl64_def ilog2_numeral pow2_def round_even_def Let_def



lemma fl64_three_tenths: "fl64 (3 / 10) = 5404319552844595 / 2 ^ 54"
  by (simp add: fl_defs)

lemmas holder_defs = getHolders_def scanAccount_def mkHolder_def getSwapHistory_def scanTx_def
  txTokenDelta_def txSolSpent_def ownTokenBalance_def ownerIdx_def solAt_def getPrice_def
  isEligible_def isOnCooldown_def recordWinner_def EXCLUDED_def GAS_THRESHOLD_def
  MIN_VALUE_SOL_def COOLDOWN_CYCLES_def fl_defs

lemmas cycle_defs = runCycle_def claimFees_def withdrawPumpFunFees_def isOnBondingCurve_def
  buyTokens_def distribute_def finishCycle_def submitTx_def sendTx_def burnTx_def toSend_def
  toBurn_def bigint_div_def getDecimals_def LAMPORTS_PER_SOL_def RESERVE_SOL_def

subsection \<open>The sort\<close>

lemma set_insort_cmp: "set (insort_cmp cmp x xs) = insert x (set xs)"
  by (induction xs) auto

lemma set_array_sort: "set (array_sort cmp xs) = set xs"
  by (induction xs) (auto simp: set_insort_cmp)

text \<open>With the comparator of \<^verbatim>\<open>getHolders\<close> the sort is the library's insertion sort
  on the key \<open>pnl\<close>.\<close>

lemma insort_cmp_pnl: "insort_cmp (\<lambda>a b. pnl a - pnl b) x xs = insort_key pnl x xs"
  by (induction xs) auto

lemma array_sort_pnl: "array_sort (\<lambda>a b. pnl a - pnl b) xs = sort_key pnl xs"
  by (induction xs) (auto simp: insort_cmp_pnl)

lemma sorted_array_sort: "sorted (map pnl (array_sort (\<lambda>a b. pnl a - pnl b) xs))"
  by (simp add: array_sort_pnl)

lemma stable_array_sort:
  "filter (\<lambda>h. pnl h = k) (array_sort (\<lambda>a b. pnl a - pnl b) xs) = filter (\<lambda>h. pnl h = k) xs"
  by (simp add: array_sort_pnl sort_key_stable)

subsection \<open>The scan of the accounts\<close>

lemma scanAccount_ata: "scanAccount cfg env price a = Some h \<Longrightarrow> ata h = pubkey a"
  by (auto simp: scanAccount_def mkHolder_def Let_def split: option.splits if_splits)

lemma subseq_scanAccounts: "subseq (map ata (scanAccounts cfg env price as)) (map pubkey as)"
  by (induction as) (auto split: option.splits simp: scanAccount_ata)

lemma scanAccounts_mem:
  "h \<in> set (scanAccounts cfg env price as) \<longleftrightarrow> (\<exists>a \<in> set as. scanAccount cfg env price a = Some h)"
  by (induction as) (auto split: option.splits)


lemma scanAccount_fields:
  assumes "scanAccount cfg env price a = Some h"
  shows "\<exists>i. info a = Some i \<and> wallet h = info_owner i \<and> ata h = pubkey a
           \<and> balance h = (case info_tokenAmount i of None \<Rightarrow> 0 | Some t \<Rightarrow> uiAmountString t)
           \<and> h = mkHolder (wallet h) (ata h) (balance h) (balanceRaw h)
                   (getSwapHistory (signaturesFor env) (wallet h) (TOKEN_MINT cfg)) price"
  using assms by (auto simp: scanAccount_def mkHolder_def Let_def split: option.splits if_splits)

lemma getHolders_Inr:
  "getHolders cfg env rw cyc = Inr out \<longleftrightarrow>
     (\<exists>accounts. programAccounts env = Some accounts \<and>
        out = array_sort (\<lambda>a b. pnl a - pnl b)
                (filter (isEligible rw cyc)
                   (scanAccounts cfg env (getPrice (priceResponse env)) accounts)))"
  by (auto simp: getHolders_def Let_def split: option.splits)

subsection \<open>The swap history\<close>




subsection \<open>The concrete ledger, evaluated\<close>

lemma ex_scan:
  "scanAccounts ex_cfg ex_env (1 / 100) ex_accounts = [ex_holder2, ex_holder1, ex_holder4]"
  by (simp add: ex_defs holder_defs)

lemma ex_ranked:
  "getHolders ex_cfg ex_env Map.empty (Some 1) = Inr [ex_holder1, ex_holder2, ex_holder4]"
  by (simp add: ex_defs holder_defs)

subsection \<open>Properties of the specification\<close>

text \<open>C10. A win recorded with cycle number 0 never puts the wallet on cooldown: the stored
  0 is falsy, so \<open>isOnCooldown\<close> answers false at every cycle, although the formula
  \<open>currentCycle - cycleNumberWon \<le> COOLDOWN_CYCLES\<close> holds at cycles 1 and 2.\<close>

theorem cooldown_zero_cycle:
  "\<not> isOnCooldown (recordWinner w 0 rw) w c
     \<and> (1::int) - 0 \<le> COOLDOWN_CYCLES \<and> (2::int) - 0 \<le> COOLDOWN_CYCLES"
  by (simp add: isOnCooldown_def recordWinner_def COOLDOWN_CYCLES_def)

text \<open>C6. For a positive total the split sends \<open>floor (total / 2)\<close> and burns the rest:
  the two parts sum to the total, and the burn exceeds the send by 0 or 1.\<close>

theorem split_exact:
  assumes "0 < totalRaw"
  shows "toSend totalRaw = totalRaw div 2
     \<and> toBurn totalRaw = totalRaw - toSend totalRaw
     \<and> toSend totalRaw + toBurn totalRaw = totalRaw
     \<and> toBurn totalRaw - toSend totalRaw \<in> {0, 1}
     \<and> toSend totalRaw \<le> toBurn totalRaw"
  using assms by (auto simp: toSend_def toBurn_def bigint_div_def)

theorem split_exact_witness:
  "(0::int) < 7 \<and> toSend 7 = 7 div 2 \<and> toBurn 7 = 7 - toSend 7 \<and> toSend 7 + toBurn 7 = 7
     \<and> toBurn 7 - toSend 7 \<in> {0, 1} \<and> toSend 7 \<le> toBurn 7"
proof -
  have pos: "(0::int) < 7" by simp
  from split_exact [OF pos] pos show ?thesis by blast
qed

text \<open>C3. Every record in the ranker's output belongs to a scanned account and carries
  the derived fields: \<open>retainedRatio = min 1 (balance / swapBought)\<close>, cost basis
  \<open>swapSpent * retainedRatio\<close>, current value \<open>min balance swapBought * price\<close> and
  \<open>pnl = currentValue - costBasis\<close>. For balance 300, 1000 bought for 50 and price 0.01
  the record has ratio 0.3, cost basis 15, value 3 and pnl -12.\<close>

theorem holder_derived_fields:
  assumes "getHolders cfg env rw cyc = Inr out" and "h \<in> set out"
  shows "(\<exists>accounts a i. programAccounts env = Some accounts \<and> a \<in> set accounts
            \<and> info a = Some i \<and> wallet h = info_owner i \<and> ata h = pubkey a
            \<and> balance h = (case info_tokenAmount i of None \<Rightarrow> 0 | Some t \<Rightarrow> uiAmountString t))
     \<and> swapBought h
         = totalTokensBought (getSwapHistory (signaturesFor env) (wallet h) (TOKEN_MINT cfg))
     \<and> retainedRatio h = min 1 (balance h / swapBought h)
     \<and> costBasis h
         = totalSolSpent (getSwapHistory (signaturesFor env) (wallet h) (TOKEN_MINT cfg))
             * retainedRatio h
     \<and> currentValue h = min (balance h) (swapBought h) * getPrice (priceResponse env)
     \<and> pnl h = min (balance h) (swapBought h) * getPrice (priceResponse env) - costBasis h
     \<and> mkHolder w k 300 raw \<lparr>totalSolSpent = 50, totalTokensBought = 1000\<rparr> 0.01
         = \<lparr>wallet = w, ata = k, balance = 300, balanceRaw = raw, costBasis = 15,
            currentValue = 3, pnl = - 12, swapBought = 1000, retainedRatio = 0.3\<rparr>"
proof -
  from assms obtain accounts where acc: "programAccounts env = Some accounts"
    and mem: "h \<in> set (scanAccounts cfg env (getPrice (priceResponse env)) accounts)"
    by (auto simp: getHolders_Inr set_array_sort)
  from mem obtain a where a: "a \<in> set accounts"
    and sc: "scanAccount cfg env (getPrice (priceResponse env)) a = Some h"
    by (auto simp: scanAccounts_mem)
  from scanAccount_fields [OF sc] obtain i where i: "info a = Some i"
    "wallet h = info_owner i" "ata h = pubkey a"
    "balance h = (case info_tokenAmount i of None \<Rightarrow> 0 | Some t \<Rightarrow> uiAmountString t)"
    and eq: "h = mkHolder (wallet h) (ata h) (balance h) (balanceRaw h)
               (getSwapHistory (signaturesFor env) (wallet h) (TOKEN_MINT cfg))
               (getPrice (priceResponse env))"
    by blast
  have link: "\<exists>accounts a i. programAccounts env = Some accounts \<and> a \<in> set accounts
            \<and> info a = Some i \<and> wallet h = info_owner i \<and> ata h = pubkey a
            \<and> balance h = (case info_tokenAmount i of None \<Rightarrow> 0 | Some t \<Rightarrow> uiAmountString t)"
    using acc a i by blast
  define hist where "hist = getSwapHistory (signaturesFor env) (wallet h) (TOKEN_MINT cfg)"
  define price where "price = getPrice (priceResponse env)"
  from eq have eq': "h = mkHolder (wallet h) (ata h) (balance h) (balanceRaw h) hist price"
    by (simp add: hist_def price_def)
  have f1: "swapBought h = totalTokensBought hist"
    by (subst eq') (simp add: mkHolder_def Let_def)
  have f2: "retainedRatio h = min 1 (balance h / totalTokensBought hist)"
    by (subst eq') (simp add: mkHolder_def Let_def)
  have f3: "costBasis h = totalSolSpent hist * min 1 (balance h / totalTokensBought hist)"
    by (subst eq') (simp add: mkHolder_def Let_def)
  have f4: "currentValue h = min (balance h) (totalTokensBought hist) * price"
    by (subst eq') (simp add: mkHolder_def Let_def)
  have f5: "pnl h = min (balance h) (totalTokensBought hist) * price
                      - totalSolSpent hist * min 1 (balance h / totalTokensBought hist)"
    by (subst eq') (simp add: mkHolder_def Let_def)
  have ex: "mkHolder w k 300 raw \<lparr>totalSolSpent = 50, totalTokensBought = 1000\<rparr> 0.01
         = \<lparr>wallet = w, ata = k, balance = 300, balanceRaw = raw, costBasis = 15,
            currentValue = 3, pnl = - 12, swapBought = 1000, retainedRatio = 0.3\<rparr>"
    by (simp add: mkHolder_def Let_def)
  show ?thesis
    using link f1 f2 f3 f4 f5 ex unfolding hist_def price_def by simp
qed

theorem holder_derived_fields_witness:
  "getHolders ex_cfg ex_env Map.empty (Some 1) = Inr [ex_holder1, ex_holder2, ex_holder4]
     \<and> ex_holder1 \<in> set [ex_holder1, ex_holder2, ex_holder4]
     \<and> retainedRatio ex_holder1 = min 1 (balance ex_holder1 / swapBought ex_holder1)
     \<and> costBasis ex_holder1
         = totalSolSpent (getSwapHistory (signaturesFor ex_env) (wallet ex_holder1)
                            (TOKEN_MINT ex_cfg)) * retainedRatio ex_holder1
     \<and> currentValue ex_holder1
         = min (balance ex_holder1) (swapBought ex_holder1) * getPrice (priceResponse ex_env)
     \<and> pnl ex_holder1
         = min (balance ex_holder1) (swapBought ex_holder1) * getPrice (priceResponse ex_env)
             - costBasis ex_holder1
     \<and> retainedRatio ex_holder1 = 0.3 \<and> costBasis ex_holder1 = 15
     \<and> currentValue ex_holder1 = 3 \<and> pnl ex_holder1 = - 12"
proof -
  have run: "getHolders ex_cfg ex_env Map.empty (Some 1) = Inr [ex_holder1, ex_holder2, ex_holder4]"
    by (rule ex_ranked)
  have mem: "ex_holder1 \<in> set [ex_holder1, ex_holder2, ex_holder4]" by simp
  have vals: "retainedRatio ex_holder1 = 0.3 \<and> costBasis ex_holder1 = 15
     \<and> currentValue ex_holder1 = 3 \<and> pnl ex_holder1 = - 12"
    by (simp add: ex_holder1_def)
  from holder_derived_fields [OF run mem] run mem vals show ?thesis by blast
qed



text \<open>The threshold at the scale of a rounding error. A spend of 1000000 lamports is
  0.3 - 0.299 in binary64, a little more than \<open>GAS_THRESHOLD\<close>, when the balance goes from
  300000000 to 299000000, and the transaction counts as a purchase; it is \<open>GAS_THRESHOLD\<close>
  itself when the balance goes from 1000000 to 0, and the transaction does not count.\<close>

lemma boundary_spend_counted:
  "txSolSpent ''W5'' (ex_boundary_tx 300000000 299000000) = 9007199254741 / 2 ^ 53
     \<and> GAS_THRESHOLD < txSolSpent ''W5'' (ex_boundary_tx 300000000 299000000)
     \<and> scanTx ''HOPE'' ''W5'' \<lparr>totalSolSpent = 0, totalTokensBought = 0\<rparr>
           (TxParsed (ex_boundary_tx 300000000 299000000))
         = \<lparr>totalSolSpent = 9007199254741 / 2 ^ 53, totalTokensBought = 1\<rparr>"
  by (simp add: ex_boundary_tx_def scanTx_def txTokenDelta_def ownTokenBalance_def
                txSolSpent_def ownerIdx_def solAt_def GAS_THRESHOLD_def fl_defs)

lemma boundary_spend_not_counted:
  "txSolSpent ''W5'' (ex_boundary_tx 1000000 0) = GAS_THRESHOLD
     \<and> scanTx ''HOPE'' ''W5'' \<lparr>totalSolSpent = 0, totalTokensBought = 0\<rparr>
           (TxParsed (ex_boundary_tx 1000000 0))
         = \<lparr>totalSolSpent = 0, totalTokensBought = 0\<rparr>"
  by (simp add: ex_boundary_tx_def scanTx_def txTokenDelta_def ownTokenBalance_def
                txSolSpent_def ownerIdx_def solAt_def GAS_THRESHOLD_def fl_defs)

text \<open>C7. The output is sorted ascending by \<open>pnl\<close>, and the sort is stable: the records
  of any one \<open>pnl\<close> value are, in the same order, the eligible scanned records of that
  value, and their token accounts follow the order of the input accounts.\<close>

theorem ranked_sorted_stable:
  assumes "getHolders cfg env rw cyc = Inr out"
  shows "sorted (map pnl out)
     \<and> (\<exists>accounts. programAccounts env = Some accounts
          \<and> filter (\<lambda>h. pnl h = k) out
              = filter (\<lambda>h. pnl h = k)
                  (filter (isEligible rw cyc)
                     (scanAccounts cfg env (getPrice (priceResponse env)) accounts))
          \<and> subseq (map ata (filter (\<lambda>h. pnl h = k) out)) (map pubkey accounts))"
proof -
  from assms obtain accounts where acc: "programAccounts env = Some accounts"
    and out: "out = array_sort (\<lambda>a b. pnl a - pnl b)
                (filter (isEligible rw cyc)
                   (scanAccounts cfg env (getPrice (priceResponse env)) accounts))"
    by (auto simp: getHolders_Inr)
  have s: "sorted (map pnl out)"
    unfolding out by (rule sorted_array_sort)
  have st: "filter (\<lambda>h. pnl h = k) out
              = filter (\<lambda>h. pnl h = k)
                  (filter (isEligible rw cyc)
                     (scanAccounts cfg env (getPrice (priceResponse env)) accounts))"
    unfolding out by (rule stable_array_sort)
  have "subseq (filter (\<lambda>h. pnl h = k) out)
          (scanAccounts cfg env (getPrice (priceResponse env)) accounts)"
    unfolding st by (metis subseq_filter_left subseq_order.trans)
  then have "subseq (map ata (filter (\<lambda>h. pnl h = k) out))
          (map ata (scanAccounts cfg env (getPrice (priceResponse env)) accounts))"
    by (rule subseq_map)
  then have sub: "subseq (map ata (filter (\<lambda>h. pnl h = k) out)) (map pubkey accounts)"
    using subseq_scanAccounts subseq_order.trans by blast
  from s acc st sub show ?thesis by blast
qed

theorem ranked_sorted_stable_witness:
  "getHolders ex_cfg ex_env Map.empty (Some 1) = Inr [ex_holder1, ex_holder2, ex_holder4]
     \<and> sorted (map pnl [ex_holder1, ex_holder2, ex_holder4])
     \<and> filter (\<lambda>h. pnl h = - 2) [ex_holder1, ex_holder2, ex_holder4] = [ex_holder2, ex_holder4]
     \<and> subseq (map ata (filter (\<lambda>h. pnl h = - 2) [ex_holder1, ex_holder2, ex_holder4]))
         (map pubkey ex_accounts)"
proof -
  have run: "getHolders ex_cfg ex_env Map.empty (Some 1) = Inr [ex_holder1, ex_holder2, ex_holder4]"
    by (rule ex_ranked)
  have acc: "programAccounts ex_env = Some ex_accounts"
    by (simp add: ex_env_def)
  have ties: "filter (\<lambda>h. pnl h = - 2) [ex_holder1, ex_holder2, ex_holder4] = [ex_holder2, ex_holder4]"
    by (simp add: ex_holder1_def ex_holder2_def ex_holder4_def)
  from ranked_sorted_stable [OF run, of "- 2"] acc
  have "sorted (map pnl [ex_holder1, ex_holder2, ex_holder4])
     \<and> subseq (map ata (filter (\<lambda>h. pnl h = - 2) [ex_holder1, ex_holder2, ex_holder4]))
         (map pubkey ex_accounts)"
    by auto
  with run ties show ?thesis by blast
qed

text \<open>C5. A wallet that wins cycle \<open>k\<close>, for \<open>k\<close> other than 0, and is otherwise
  eligible (scanned, at or above the minimum value) is absent from the output of cycles
  \<open>k + 1\<close> and \<open>k + 2\<close> and present in the output of every cycle from \<open>k + 3\<close> on.\<close>

theorem cooldown_window:
  assumes "k \<noteq> 0"
    and "programAccounts env = Some accounts"
    and "h \<in> set (scanAccounts cfg env (getPrice (priceResponse env)) accounts)"
    and "\<not> currentValue h < MIN_VALUE_SOL"
    and "k + 3 \<le> c"
  shows "(\<exists>out. getHolders cfg env (recordWinner (wallet h) k rw) (Some (k + 1)) = Inr out
            \<and> h \<notin> set out)
     \<and> (\<exists>out. getHolders cfg env (recordWinner (wallet h) k rw) (Some (k + 2)) = Inr out
            \<and> h \<notin> set out)
     \<and> (\<exists>out. getHolders cfg env (recordWinner (wallet h) k rw) (Some c) = Inr out
            \<and> h \<in> set out)"
proof -
  have on1: "isOnCooldown (recordWinner (wallet h) k rw) (wallet h) (k + 1)"
    and on2: "isOnCooldown (recordWinner (wallet h) k rw) (wallet h) (k + 2)"
    and off: "\<not> isOnCooldown (recordWinner (wallet h) k rw) (wallet h) c"
    using assms(1,5) by (simp_all add: isOnCooldown_def recordWinner_def COOLDOWN_CYCLES_def)
  have mem: "\<And>cyc out. getHolders cfg env (recordWinner (wallet h) k rw) (Some cyc) = Inr out
      \<Longrightarrow> h \<in> set out \<longleftrightarrow> \<not> isOnCooldown (recordWinner (wallet h) k rw) (wallet h) cyc"
    using assms(2,3,4) by (auto simp: getHolders_Inr set_array_sort isEligible_def)
  have run: "\<And>cyc. \<exists>out. getHolders cfg env (recordWinner (wallet h) k rw) (Some cyc) = Inr out"
    using assms(2) by (simp add: getHolders_Inr)
  from run [of "k + 1"] mem [of "k + 1"] on1
  have a: "\<exists>out. getHolders cfg env (recordWinner (wallet h) k rw) (Some (k + 1)) = Inr out
            \<and> h \<notin> set out" by blast
  from run [of "k + 2"] mem [of "k + 2"] on2
  have b: "\<exists>out. getHolders cfg env (recordWinner (wallet h) k rw) (Some (k + 2)) = Inr out
            \<and> h \<notin> set out" by blast
  from run [of c] mem [of c] off
  have d: "\<exists>out. getHolders cfg env (recordWinner (wallet h) k rw) (Some c) = Inr out
            \<and> h \<in> set out" by blast
  from a b d show ?thesis by blast
qed

theorem cooldown_window_witness:
  "(1::int) \<noteq> 0 \<and> programAccounts ex_env = Some ex_accounts
     \<and> ex_holder1 \<in> set (scanAccounts ex_cfg ex_env (getPrice (priceResponse ex_env)) ex_accounts)
     \<and> \<not> currentValue ex_holder1 < MIN_VALUE_SOL \<and> (1::int) + 3 \<le> 4
     \<and> (\<exists>out. getHolders ex_cfg ex_env (recordWinner (wallet ex_holder1) 1 Map.empty)
                 (Some (1 + 1)) = Inr out \<and> ex_holder1 \<notin> set out)
     \<and> (\<exists>out. getHolders ex_cfg ex_env (recordWinner (wallet ex_holder1) 1 Map.empty)
                 (Some (1 + 2)) = Inr out \<and> ex_holder1 \<notin> set out)
     \<and> (\<exists>out. getHolders ex_cfg ex_env (recordWinner (wallet ex_holder1) 1 Map.empty)
                 (Some 4) = Inr out \<and> ex_holder1 \<in> set out)"
proof -
  have k: "(1::int) \<noteq> 0" by simp
  have acc: "programAccounts ex_env = Some ex_accounts" by (simp add: ex_env_def)
  have mem: "ex_holder1 \<in> set (scanAccounts ex_cfg ex_env (getPrice (priceResponse ex_env)) ex_accounts)"
    using ex_scan by (simp add: getPrice_def ex_env_def)
  have val: "\<not> currentValue ex_holder1 < MIN_VALUE_SOL"
    by (simp add: ex_holder1_def MIN_VALUE_SOL_def)
  have c: "(1::int) + 3 \<le> 4" by simp
  from cooldown_window [OF k acc mem val c, of Map.empty] k acc mem val c
  show ?thesis by blast
qed

theorem cooldown_window_counterexample:
  "getHolders ex_cfg ex_env (recordWinner ''W1'' 0 Map.empty) (Some (0 + 1))
       = Inr [ex_holder1, ex_holder2, ex_holder4]
     \<and> getHolders ex_cfg ex_env (recordWinner ''W1'' 0 Map.empty) (Some (0 + 2))
       = Inr [ex_holder1, ex_holder2, ex_holder4]
     \<and> wallet ex_holder1 = ''W1''"
  by (simp add: ex_defs holder_defs)

text \<open>C2. When the price source fails, has no price or answers 0, the ranker does not
  throw and the price is 0: every scanned record has current value 0 and \<open>pnl\<close> equal to
  minus its cost basis. A current value of 0 is below the minimum-value floor, so every
  record is discarded and the output is the empty list.\<close>

theorem zero_price_ranking:
  assumes "priceResponse env \<in> {PriceFetchThrows, PriceMissing, PriceValue 0}"
    and "programAccounts env = Some accounts"
  shows "getPrice (priceResponse env) = 0
     \<and> getHolders cfg env rw cyc = Inr []
     \<and> (\<forall>h \<in> set (scanAccounts cfg env (getPrice (priceResponse env)) accounts).
           currentValue h = 0 \<and> pnl h = - costBasis h)"
proof -
  from assms(1) have p: "getPrice (priceResponse env) = 0"
    by (auto simp: getPrice_def)
  have rec: "currentValue h = 0 \<and> pnl h = - costBasis h"
    if "h \<in> set (scanAccounts cfg env 0 accounts)" for h
  proof -
    from that obtain a where "scanAccount cfg env 0 a = Some h"
      by (auto simp: scanAccounts_mem)
    then have "currentValue h = 0" "pnl h = - costBasis h"
      by (auto simp: scanAccount_def mkHolder_def Let_def split: option.splits if_splits)
    then show ?thesis by simp
  qed
  then have none: "filter (isEligible rw cyc) (scanAccounts cfg env 0 accounts) = []"
    by (auto simp: filter_empty_conv isEligible_def MIN_VALUE_SOL_def)
  have "getHolders cfg env rw cyc = Inr []"
    using assms(2) p none by (simp add: getHolders_def)
  with p rec show ?thesis by simp
qed

theorem zero_price_ranking_witness:
  "priceResponse ex_env_noprice \<in> {PriceFetchThrows, PriceMissing, PriceValue 0}
     \<and> programAccounts ex_env_noprice = Some ex_accounts
     \<and> getPrice (priceResponse ex_env_noprice) = 0
     \<and> getHolders ex_cfg ex_env_noprice Map.empty (Some 1) = Inr []
     \<and> list_all (\<lambda>h. currentValue h = 0 \<and> pnl h = - costBasis h)
         (scanAccounts ex_cfg ex_env_noprice (getPrice (priceResponse ex_env_noprice))
            ex_accounts)"
proof -
  have p: "priceResponse ex_env_noprice \<in> {PriceFetchThrows, PriceMissing, PriceValue 0}"
    by (simp add: ex_env_noprice_def)
  have acc: "programAccounts ex_env_noprice = Some ex_accounts"
    by (simp add: ex_env_noprice_def ex_env_def)
  from zero_price_ranking [OF p acc, of ex_cfg Map.empty "Some 1"] p acc
  show ?thesis by (simp add: list_all_iff)
qed

theorem zero_price_ranking_counterexample:
  "getHolders ex_cfg ex_env_noprice Map.empty (Some 1) = Inr []
     \<and> map wallet (scanAccounts ex_cfg ex_env_noprice 0 ex_accounts) = [''W2'', ''W1'', ''W4'']
     \<and> map costBasis (scanAccounts ex_cfg ex_env_noprice 0 ex_accounts) = [10, 15, 10]
     \<and> \<not> isOnCooldown Map.empty ''W1'' 1"
  by (simp add: ex_defs holder_defs)

subsection \<open>What a cycle's steps leave unchanged\<close>

lemma applyIx_keeps:
  "submitted (applyIx p ix s) = submitted s"
  "recentWinners (applyIx p ix s) = recentWinners s"
  "cycleCount (applyIx p ix s) = cycleCount s"
  by (cases ix; simp)+

lemma applyTx_keeps:
  "submitted (applyTx p tx s) = submitted s"
  "recentWinners (applyTx p tx s) = recentWinners s"
  "cycleCount (applyTx p tx s) = cycleCount s"
  by (induction tx arbitrary: s; simp add: applyIx_keeps)+

lemma applyIx_burned: "\<not> isBurnIx ix \<Longrightarrow> burned (applyIx p ix s) = burned s"
  by (cases ix) simp_all

lemma applyTx_burned: "list_all (\<lambda>ix. \<not> isBurnIx ix) tx \<Longrightarrow> burned (applyTx p tx s) = burned s"
  by (induction tx arbitrary: s) (simp_all add: applyIx_burned)

lemma submitTx_keeps:
  "submitted (submitTx p st tx ok s) = submitted s @ [(st, tx, ok)]"
  "recentWinners (submitTx p st tx ok s) = recentWinners s"
  "cycleCount (submitTx p st tx ok s) = cycleCount s"
  by (simp_all add: submitTx_def Let_def applyTx_keeps)

lemma submitTx_burned:
  "list_all (\<lambda>ix. \<not> isBurnIx ix) tx \<Longrightarrow> burned (submitTx p st tx ok s) = burned s"
  by (simp add: submitTx_def Let_def applyTx_burned)

lemma submitTx_failed: "submitTx p st tx False s = s\<lparr>submitted := submitted s @ [(st, tx, False)]\<rparr>"
  by (simp add: submitTx_def)

lemma sendTx_no_burn: "list_all (\<lambda>ix. \<not> isBurnIx ix) (sendTx env r n)"
  by (simp add: sendTx_def)

lemma claimFees_keeps:
  assumes "claimFees cfg env s = (r, s1)"
  shows "recentWinners s1 = recentWinners s \<and> cycleCount s1 = cycleCount s
     \<and> burned s1 = burned s
     \<and> filter (\<lambda>e. fst e = BurnStep) (submitted s1) = filter (\<lambda>e. fst e = BurnStep) (submitted s)"
  using assms
  by (auto simp: claimFees_def withdrawPumpFunFees_def Let_def submitTx_keeps submitTx_burned
           split: if_splits option.splits rpc.splits prod.splits)

lemma buyTokens_keeps:
  assumes "buyTokens cfg env sol s = (r, s1)"
  shows "recentWinners s1 = recentWinners s \<and> cycleCount s1 = cycleCount s
     \<and> burned s1 = burned s
     \<and> filter (\<lambda>e. fst e = BurnStep) (submitted s1) = filter (\<lambda>e. fst e = BurnStep) (submitted s)"
  using assms
  by (auto simp: buyTokens_def Let_def submitTx_keeps submitTx_burned
           split: if_splits quote_response.splits)

lemma distribute_keeps:
  assumes "distribute cfg env w n d s = (r, s1)"
  shows "recentWinners s1 = recentWinners s \<and> cycleCount s1 = cycleCount s
     \<and> (case r of
           Inl e \<Rightarrow> True
         | Inr x \<Rightarrow> sendConfirmed env \<and> burnConfirmed env
                     \<and> x = (sendSignature env, burnSignature env))"
  using assms by (auto simp: distribute_def Let_def submitTx_keeps split: if_splits)

lemma distribute_send_fails:
  assumes "\<not> sendConfirmed env"
  shows "distribute cfg env w n d s
           = (Inl TxError, s\<lparr>submitted := submitted s @ [(SendStep, sendTx env w n, False)]\<rparr>)"
  using assms by (simp add: distribute_def Let_def submitTx_failed)

lemma distribute_send_confirmed:
  assumes "sendConfirmed env"
  shows "submitted (snd (distribute cfg env w n d s))
           = submitted s @ [(SendStep, sendTx env w n, True),
                            (BurnStep, burnTx cfg env n, burnConfirmed env)]"
  using assms by (simp add: distribute_def Let_def submitTx_keeps)

lemma runCycle_not_completed:
  assumes "runCycle cfg env s = (oc, s')" and "oc \<noteq> Completed"
  shows "recentWinners s' = recentWinners s"
  using assms unfolding runCycle_def Let_def
  by (auto split: sum.splits list.splits prod.splits if_splits
           dest!: claimFees_keeps buyTokens_keeps distribute_keeps)

lemma runCycle_completed:
  assumes "runCycle cfg env s = (Completed, s')"
  shows "sendConfirmed env \<and> burnConfirmed env
     \<and> (\<exists>topLoser rest.
           getHolders cfg env (recentWinners s) (Some (cycleCount s + 1)) = Inr (topLoser # rest)
           \<and> recentWinners s'
               = recordWinner (wallet topLoser) (cycleCount s + 1) (recentWinners s))"
  using assms unfolding runCycle_def Let_def
  by (auto split: sum.splits list.splits prod.splits if_splits simp: finishCycle_def Let_def
           dest!: claimFees_keeps buyTokens_keeps distribute_keeps)

lemma runCycle_send_fails:
  assumes "runCycle cfg env s = (oc, s')" and "\<not> sendConfirmed env"
  shows "oc \<noteq> Completed \<and> burned s' = burned s
     \<and> filter (\<lambda>e. fst e = BurnStep) (submitted s')
         = filter (\<lambda>e. fst e = BurnStep) (submitted s)"
  using assms unfolding runCycle_def Let_def
  by (auto split: sum.splits list.splits prod.splits if_splits
           simp: distribute_send_fails
           dest!: claimFees_keeps buyTokens_keeps)

lemma migrated_below_threshold:
  assumes "\<not> isOnBondingCurve (curveInfo env)" and "walletBalance env = Some b"
    and "max 0 (real_of_int b / LAMPORTS_PER_SOL - RESERVE_SOL) < MIN_FEE_SOL cfg"
  shows "claimFees cfg env s = (Inr 0, s)"
  using assms by (simp add: claimFees_def Let_def)

lemma no_fees_no_transactions:
  assumes "claimFees cfg env (s\<lparr>cycleCount := cycleCount s + 1\<rparr>)
             = (Inr 0, s\<lparr>cycleCount := cycleCount s + 1\<rparr>)"
  shows "fst (runCycle cfg env s) \<in> {Failed, SkippedNoHolders, SkippedNoLoss, SkippedNoFees}
     \<and> submitted (snd (runCycle cfg env s)) = submitted s"
  using assms unfolding runCycle_def Let_def
  by (auto split: sum.splits list.splits)

subsection \<open>The concrete cycles, evaluated\<close>

lemma ex_cycle_ranked:
  "getHolders ex_cfg ex_env (recentWinners ex_state) (Some (cycleCount ex_state + 1))
     = Inr [ex_holder1, ex_holder2, ex_holder4]"
  using ex_ranked by (simp add: ex_state_def)

lemma ex_cycle_completed: "fst (runCycle ex_cfg ex_env ex_state) = Completed"
  by (simp add: ex_defs holder_defs cycle_defs)

lemma ex_cycle_burnfail: "fst (runCycle ex_cfg ex_env_burnfail ex_state) = Failed"
  by (simp add: ex_defs holder_defs cycle_defs)

text \<open>C1. On the bonding curve the fee claimer applies no minimum: with 0.012 SOL in the
  wallet after the withdrawal the usable amount is 0.002, positive and below
  \<open>MIN_FEE_SOL = 0.005\<close>; it is returned as it is and the cycle goes on to swap, send and
  burn.\<close>

theorem curve_claim_below_threshold:
  "isOnBondingCurve (curveInfo ex_env_curve)
     \<and> fst (claimFees ex_cfg ex_env_curve ex_state) = Inr (1 / 500)
     \<and> (0::real) < 1 / 500 \<and> 1 / 500 < MIN_FEE_SOL ex_cfg
     \<and> fst (runCycle ex_cfg ex_env_curve ex_state) = Completed
     \<and> map fst (submitted (snd (runCycle ex_cfg ex_env_curve ex_state)))
         = [WithdrawStep, SwapStep, SendStep, BurnStep]"
  by (simp add: ex_defs holder_defs cycle_defs)

text \<open>C8. In a distribution the burn is submitted only after the transfer to the
  recipient has confirmed. When the transfer fails the distribution throws, the state is
  the one before but for the logged attempt (no token has moved, nothing is burned), and
  the cycle does not complete and submits no burn.\<close>

theorem burn_only_after_send:
  "(sendConfirmed env \<longrightarrow>
      submitted (snd (distribute cfg env w n d s))
        = submitted s @ [(SendStep, sendTx env w n, True),
                         (BurnStep, burnTx cfg env n, burnConfirmed env)])
   \<and> (\<not> sendConfirmed env \<longrightarrow>
        distribute cfg env w n d s
          = (Inl TxError, s\<lparr>submitted := submitted s @ [(SendStep, sendTx env w n, False)]\<rparr>)
        \<and> fst (runCycle cfg env s) \<noteq> Completed
        \<and> burned (snd (runCycle cfg env s)) = burned s
        \<and> filter (\<lambda>e. fst e = BurnStep) (submitted (snd (runCycle cfg env s)))
            = filter (\<lambda>e. fst e = BurnStep) (submitted s))"
proof -
  have a: "submitted (snd (distribute cfg env w n d s))
        = submitted s @ [(SendStep, sendTx env w n, True),
                         (BurnStep, burnTx cfg env n, burnConfirmed env)]"
    if "sendConfirmed env"
    using that by (rule distribute_send_confirmed)
  have b: "distribute cfg env w n d s
          = (Inl TxError, s\<lparr>submitted := submitted s @ [(SendStep, sendTx env w n, False)]\<rparr>)"
    if "\<not> sendConfirmed env"
    using that by (rule distribute_send_fails)
  have c: "fst (runCycle cfg env s) \<noteq> Completed
        \<and> burned (snd (runCycle cfg env s)) = burned s
        \<and> filter (\<lambda>e. fst e = BurnStep) (submitted (snd (runCycle cfg env s)))
            = filter (\<lambda>e. fst e = BurnStep) (submitted s)"
    if "\<not> sendConfirmed env"
    using runCycle_send_fails [OF _ that, of cfg s "fst (runCycle cfg env s)" "snd (runCycle cfg env s)"]
    by simp
  from a b c show ?thesis by blast
qed

theorem burn_only_after_send_witness:
  "sendConfirmed ex_env
     \<and> submitted (snd (distribute ex_cfg ex_env ''W1'' 7000001 6 ex_state))
         = submitted ex_state @ [(SendStep, sendTx ex_env ''W1'' 7000001, True),
                                 (BurnStep, burnTx ex_cfg ex_env 7000001, burnConfirmed ex_env)]
     \<and> \<not> sendConfirmed ex_env_sendfail
     \<and> distribute ex_cfg ex_env_sendfail ''W1'' 7000001 6 ex_state
         = (Inl TxError,
            ex_state\<lparr>submitted := submitted ex_state
                        @ [(SendStep, sendTx ex_env_sendfail ''W1'' 7000001, False)]\<rparr>)
     \<and> fst (runCycle ex_cfg ex_env_sendfail ex_state) \<noteq> Completed
     \<and> burned (snd (runCycle ex_cfg ex_env_sendfail ex_state)) = burned ex_state
     \<and> filter (\<lambda>e. fst e = BurnStep) (submitted (snd (runCycle ex_cfg ex_env_sendfail ex_state)))
         = filter (\<lambda>e. fst e = BurnStep) (submitted ex_state)"
proof -
  have ok: "sendConfirmed ex_env" by (simp add: ex_env_def)
  have ko: "\<not> sendConfirmed ex_env_sendfail" by (simp add: ex_env_sendfail_def)
  from burn_only_after_send [of ex_env ex_cfg "''W1''" 7000001 6 ex_state]
       burn_only_after_send [of ex_env_sendfail ex_cfg "''W1''" 7000001 6 ex_state] ok ko
  show ?thesis by blast
qed

text \<open>C9. The cooldown map changes only in a completed cycle: a cycle that fails or skips
  at any step leaves it as it was; a completed cycle had both the transfer and the burn
  confirmed, and records the top-ranked holder with the cycle's number.\<close>

theorem cooldown_only_after_distribution:
  "(fst (runCycle cfg env s) \<noteq> Completed \<longrightarrow>
      recentWinners (snd (runCycle cfg env s)) = recentWinners s)
   \<and> (fst (runCycle cfg env s) = Completed \<longrightarrow>
        sendConfirmed env \<and> burnConfirmed env
        \<and> (\<exists>topLoser rest.
              getHolders cfg env (recentWinners s) (Some (cycleCount s + 1))
                = Inr (topLoser # rest)
              \<and> recentWinners (snd (runCycle cfg env s))
                  = recordWinner (wallet topLoser) (cycleCount s + 1) (recentWinners s)))"
  using runCycle_not_completed [of cfg env s "fst (runCycle cfg env s)" "snd (runCycle cfg env s)"]
        runCycle_completed [of cfg env s "snd (runCycle cfg env s)"]
  by (cases "runCycle cfg env s") auto

theorem cooldown_only_after_distribution_witness:
  "fst (runCycle ex_cfg ex_env_burnfail ex_state) = Failed
     \<and> recentWinners (snd (runCycle ex_cfg ex_env_burnfail ex_state)) = recentWinners ex_state
     \<and> fst (runCycle ex_cfg ex_env ex_state) = Completed
     \<and> sendConfirmed ex_env \<and> burnConfirmed ex_env
     \<and> recentWinners (snd (runCycle ex_cfg ex_env ex_state))
         = recordWinner (wallet ex_holder1) (cycleCount ex_state + 1) (recentWinners ex_state)"
proof -
  have f: "fst (runCycle ex_cfg ex_env_burnfail ex_state) = Failed"
    by (rule ex_cycle_burnfail)
  have c: "fst (runCycle ex_cfg ex_env ex_state) = Completed"
    by (rule ex_cycle_completed)
  from cooldown_only_after_distribution [of ex_cfg ex_env_burnfail ex_state] f
  have unchanged: "recentWinners (snd (runCycle ex_cfg ex_env_burnfail ex_state))
                     = recentWinners ex_state"
    by simp
  from cooldown_only_after_distribution [of ex_cfg ex_env ex_state] c ex_cycle_ranked
  have recorded: "sendConfirmed ex_env \<and> burnConfirmed ex_env
     \<and> recentWinners (snd (runCycle ex_cfg ex_env ex_state))
         = recordWinner (wallet ex_holder1) (cycleCount ex_state + 1) (recentWinners ex_state)"
    by auto
  from f c unchanged recorded show ?thesis by blast
qed

end
